theory Spec2Isabelle
  imports Main
begin

section \<open>Types, objects and memory\<close>

text \<open>
  The library of \<^verbatim>\<open>visitor.h\<close> is generic in the classes it dispatches over. A class is
  known here by its name; a template argument \<^verbatim>\<open>T\<close> is a class name with or without a
  top-level \<^verbatim>\<open>const\<close>. \<^verbatim>\<open>const T\<close> of an already const type is the same type, and
  \<^verbatim>\<open>typeid\<close> ignores the top-level qualifier.
\<close>

type_synonym cname = string

datatype cvtype = Plain cname | Const cname

fun add_const :: "cvtype \<Rightarrow> cvtype" where
  "add_const (Plain c) = Const c"
| "add_const (Const c) = Const c"

fun typeid :: "cvtype \<Rightarrow> cname" where
  "typeid (Plain c) = c"
| "typeid (Const c) = c"

text \<open>
  An object has the class it was created with (its dynamic type) and a value. Objects
  live in a heap; an address is the identity of an object. Addresses are positions in a
  list, so that \<^verbatim>\<open>new\<close> takes the next position, which no live object has, and
  \<^verbatim>\<open>delete\<close> empties a position. The output stream that \<^verbatim>\<open>print\<close> is given is the
  second component of the memory.
\<close>

type_synonym addr = nat

record 'v object =
  dyn_type :: cname
  val :: 'v

record ('v, 'os) world =
  heap :: "'v object option list"
  sink :: 'os

definition deref :: "('v, 'os) world \<Rightarrow> addr \<Rightarrow> 'v object option" where
  "deref w a = (if a < length (heap w) then heap w ! a else None)"

text \<open>
  A call returns, or stops the program at a failed \<^verbatim>\<open>assert\<close>, or has no defined
  behaviour because the reference it was given designates no live object.
\<close>

datatype 'a outcome = Returns 'a | AssertionFailed | DanglingReference

text \<open>
  A class of the visited hierarchy inherits its final overrider of \<^verbatim>\<open>accept\<close> (or of
  \<^verbatim>\<open>tryAccept\<close>) from one base \<^verbatim>\<open>Visitable<S>\<close> (or \<^verbatim>\<open>AcyclicVisitable<S>\<close>). The class
  declarations of the program are a parameter: a function from the name of a class to
  that \<^verbatim>\<open>S\<close>. A class that attaches the capability to itself is mapped to its own name;
  a class derived from it that attaches nothing is mapped to the name of its base.
\<close>

type_synonym class_table = "cname \<Rightarrow> cvtype"


section \<open>Visitors\<close>

text \<open>
  A visitor object is known through its base classes \<^verbatim>\<open>Visitor<T>\<close> (or
  \<^verbatim>\<open>AcyclicVisitor<T>\<close>), one for each \<^verbatim>\<open>T\<close> of \<open>bases\<close>, its own state, and the final
  overrider of \<^verbatim>\<open>visit(T&)\<close> for each \<^verbatim>\<open>T\<close>. The code called by a visitor is the
  caller's: it is taken to return, with a new state of the visitor and of the memory.

  \<open>visit\<close> is the virtual call \<^verbatim>\<open>v.visit(t)\<close> through the base \<^verbatim>\<open>Visitor<T>\<close>. Next to
  its effect it reports the call itself, the entry point and the address it was given,
  so that the calls made by a dispatch can be counted.
\<close>

type_synonym event = "cvtype \<times> addr"

record ('s, 'w) visitor =
  bases :: "cvtype list"
  vstate :: 's
  vtable :: "cvtype \<Rightarrow> addr \<Rightarrow> 's \<Rightarrow> 'w \<Rightarrow> 's \<times> 'w"

definition visit ::
  "('s, 'w) visitor \<Rightarrow> cvtype \<Rightarrow> addr \<Rightarrow> 'w \<Rightarrow> event list \<times> ('s, 'w) visitor \<times> 'w" where
  "visit v T t w =
     (case vtable v T t (vstate v) w of (s', w') \<Rightarrow> ([(T, t)], v\<lparr>vstate := s'\<rparr>, w'))"

subsection \<open>Functor-backed implementations\<close>

text \<open>
  \<^verbatim>\<open>Visitor<T...>::Impl<F>\<close> and \<^verbatim>\<open>AcyclicVisitor<T...>::Impl<F>\<close> have the same members:
  a functor \<^verbatim>\<open>F f\<close>, and for each \<^verbatim>\<open>T\<close> the override
  \<^verbatim>\<open>void visit( T & t ) override { getFunctor()( t ); }\<close> of the one-type
  specialisation, where \<^verbatim>\<open>getFunctor\<close> returns \<^verbatim>\<open>f\<close>. The call operator of \<^verbatim>\<open>F\<close> is
  given the static type of its argument, since it may be overloaded or a template.
\<close>

definition Impl_visit ::
  "('f \<Rightarrow> cvtype \<Rightarrow> addr \<Rightarrow> 'w \<Rightarrow> 'f \<times> 'w) \<Rightarrow> cvtype \<Rightarrow> addr \<Rightarrow> 'f \<Rightarrow> 'w \<Rightarrow> 'f \<times> 'w" where
  "Impl_visit call T t f w = call f T t w"

text \<open>
  The forwarding constructor
  \<^verbatim>\<open>Impl( Args&&...args ) : f(std::forward<Args>(args)...) {}\<close>: the functor is built from
  the arguments; \<open>f\<close> is the functor so built.
\<close>

definition Impl ::
  "('f \<Rightarrow> cvtype \<Rightarrow> addr \<Rightarrow> 'w \<Rightarrow> 'f \<times> 'w) \<Rightarrow> cvtype list \<Rightarrow> 'f \<Rightarrow> ('f, 'w) visitor" where
  "Impl call Ts f = \<lparr>bases = Ts, vstate = f, vtable = Impl_visit call\<rparr>"

text \<open>
  The constructors of the functor type \<^verbatim>\<open>F\<close> are the caller's. The copy constructor from
  a const source returns the new functor and cannot change its source. A constructor
  from a non-const lvalue \<^verbatim>\<open>F(F&)\<close> and the move constructor \<^verbatim>\<open>F(F&&)\<close> return the new
  functor and the state they leave their source in.
\<close>

record 'f functor_ctors =
  copy_from_const :: "'f \<Rightarrow> 'f"
  copy_from_nonconst :: "'f \<Rightarrow> 'f \<times> 'f"
  move_from :: "'f \<Rightarrow> 'f \<times> 'f"

text \<open>
  Constructing an \<^verbatim>\<open>Impl\<close> from another \<^verbatim>\<open>Impl\<close>. The four constructors that take an
  \<^verbatim>\<open>Impl\<close> are, in the order of the source, \<^verbatim>\<open>Impl( Impl & )\<close>, \<^verbatim>\<open>Impl( Impl && )\<close>,
  \<^verbatim>\<open>Impl( const Impl & )\<close> and \<^verbatim>\<open>Impl( const Impl && )\<close>. For an argument of each value
  category one of them binds its parameter without a conversion, and it is preferred to
  the forwarding constructor template, which matches as well.
\<close>

datatype value_category = NonConstLvalue | ConstLvalue | NonConstRvalue | ConstRvalue

datatype impl_ctor = FromNonConstLvalue | DefaultMove | DefaultCopy | FromConstRvalue

fun selected_ctor :: "value_category \<Rightarrow> impl_ctor" where
  "selected_ctor NonConstLvalue = FromNonConstLvalue"
| "selected_ctor NonConstRvalue = DefaultMove"
| "selected_ctor ConstLvalue = DefaultCopy"
| "selected_ctor ConstRvalue = FromConstRvalue"

text \<open>
  Each constructor returns the new object and the source as it is left.
  \<^verbatim>\<open>Impl( Impl & other ) : Impl( const_cast<const Impl&>(other) ) {}\<close> and
  \<^verbatim>\<open>Impl( const Impl && other ) : Impl( static_cast<const Impl&>(other) ) {}\<close> delegate to
  the defaulted copy constructor, which copies \<^verbatim>\<open>f\<close> from the const member of the source.
  The defaulted move constructor moves \<^verbatim>\<open>f\<close>.
\<close>

definition default_copy ::
  "'f functor_ctors \<Rightarrow> ('f, 'w) visitor \<Rightarrow> ('f, 'w) visitor \<times> ('f, 'w) visitor" where
  "default_copy F other = (other\<lparr>vstate := copy_from_const F (vstate other)\<rparr>, other)"

definition default_move ::
  "'f functor_ctors \<Rightarrow> ('f, 'w) visitor \<Rightarrow> ('f, 'w) visitor \<times> ('f, 'w) visitor" where
  "default_move F other =
     (case move_from F (vstate other) of (f', left) \<Rightarrow>
        (other\<lparr>vstate := f'\<rparr>, other\<lparr>vstate := left\<rparr>))"

fun run_ctor ::
  "'f functor_ctors \<Rightarrow> impl_ctor \<Rightarrow> ('f, 'w) visitor \<Rightarrow> ('f, 'w) visitor \<times> ('f, 'w) visitor" where
  "run_ctor F FromNonConstLvalue other = default_copy F other"
| "run_ctor F DefaultMove other = default_move F other"
| "run_ctor F DefaultCopy other = default_copy F other"
| "run_ctor F FromConstRvalue other = default_copy F other"

definition Impl_from ::
  "'f functor_ctors \<Rightarrow> value_category \<Rightarrow> ('f, 'w) visitor \<Rightarrow> ('f, 'w) visitor \<times> ('f, 'w) visitor" where
  "Impl_from F cat other = run_ctor F (selected_ctor cat) other"

text \<open>
  \<^verbatim>\<open>static Impl<F> makeImpl( F f ) { return Impl<F>( std::move(f) ); }\<close>: the functor of
  the result is move-constructed from the parameter.
\<close>

definition makeImpl ::
  "'f functor_ctors \<Rightarrow> ('f \<Rightarrow> cvtype \<Rightarrow> addr \<Rightarrow> 'w \<Rightarrow> 'f \<times> 'w) \<Rightarrow> cvtype list \<Rightarrow> 'f \<Rightarrow> ('f, 'w) visitor" where
  "makeImpl F call Ts f = Impl call Ts (fst (move_from F f))"


section \<open>The simple visitor pattern\<close>

text \<open>
  \<^verbatim>\<open>assert( typeid( *this ) == typeid( S ) )\<close>. With \<^verbatim>\<open>NDEBUG\<close> defined the macro expands
  to nothing and its argument is not evaluated.
\<close>

definition assert_typeid ::
  "bool \<Rightarrow> ('v, 'os) world \<Rightarrow> addr \<Rightarrow> cvtype \<Rightarrow> unit outcome" where
  "assert_typeid ndebug w this S =
     (if ndebug then Returns ()
      else case deref w this of
             None \<Rightarrow> DanglingReference
           | Some obj \<Rightarrow> if dyn_type obj = typeid S then Returns () else AssertionFailed)"

text \<open>
  \<^verbatim>\<open>Visitor<T...>::Visitable<S>::accept( Visitor & v )\<close>: the assertion, then the call of
  \<^verbatim>\<open>visit\<close> through the base \<^verbatim>\<open>Visitor<S>\<close> of \<^verbatim>\<open>v\<close> with \<^verbatim>\<open>*this\<close> as an \<^verbatim>\<open>S&\<close>. The
  cast of \<^verbatim>\<open>v\<close> is to a base class and the cast of \<^verbatim>\<open>*this\<close> is unchecked: neither changes
  which object is meant. That \<^verbatim>\<open>Visitor<S>\<close> is a base of \<^verbatim>\<open>Visitor<T...>\<close> is checked
  when the program is compiled.
\<close>

definition accept ::
  "bool \<Rightarrow> cvtype \<Rightarrow> ('s, ('v, 'os) world) visitor \<Rightarrow> addr \<Rightarrow> ('v, 'os) world \<Rightarrow>
     (event list \<times> ('s, ('v, 'os) world) visitor \<times> ('v, 'os) world) outcome" where
  "accept ndebug S v this w =
     (case assert_typeid ndebug w this S of
        Returns _ \<Rightarrow> Returns (visit v S this w)
      | AssertionFailed \<Rightarrow> AssertionFailed
      | DanglingReference \<Rightarrow> DanglingReference)"

text \<open>
  \<^verbatim>\<open>accept( ConstVisitor & v ) const\<close>: the same with \<^verbatim>\<open>const S\<close>.
\<close>

definition accept_const ::
  "bool \<Rightarrow> cvtype \<Rightarrow> ('s, ('v, 'os) world) visitor \<Rightarrow> addr \<Rightarrow> ('v, 'os) world \<Rightarrow>
     (event list \<times> ('s, ('v, 'os) world) visitor \<times> ('v, 'os) world) outcome" where
  "accept_const ndebug S v this w =
     (case assert_typeid ndebug w this (add_const S) of
        Returns _ \<Rightarrow> Returns (visit v (add_const S) this w)
      | AssertionFailed \<Rightarrow> AssertionFailed
      | DanglingReference \<Rightarrow> DanglingReference)"

text \<open>
  The virtual call \<^verbatim>\<open>client.accept( v )\<close> on a \<^verbatim>\<open>const VisitableInterface &\<close>: the final
  overrider is that of the dynamic class of the client.
\<close>

definition virtual_accept_const ::
  "bool \<Rightarrow> class_table \<Rightarrow> ('s, ('v, 'os) world) visitor \<Rightarrow> addr \<Rightarrow> ('v, 'os) world \<Rightarrow>
     (event list \<times> ('s, ('v, 'os) world) visitor \<times> ('v, 'os) world) outcome" where
  "virtual_accept_const ndebug ct v client w =
     (case deref w client of
        None \<Rightarrow> DanglingReference
      | Some obj \<Rightarrow> accept_const ndebug (ct (dyn_type obj)) v client w)"


section \<open>The acyclic visitor pattern\<close>

text \<open>
  \<^verbatim>\<open>dynamic_cast<AcyclicVisitor<T>*>(&v)\<close> is not null exactly when \<^verbatim>\<open>AcyclicVisitor<T>\<close>
  is a base of the dynamic class of \<^verbatim>\<open>v\<close>; the pointer then designates \<^verbatim>\<open>v\<close>.
\<close>

definition dynamic_cast :: "('s, 'w) visitor \<Rightarrow> cvtype \<Rightarrow> bool" where
  "dynamic_cast v T \<longleftrightarrow> T \<in> set (bases v)"

text \<open>
  \<^verbatim>\<open>AcyclicVisitable<S>::tryAccept\<close> and \<^verbatim>\<open>tryAcceptConst\<close>. The result is the returned
  flag, the calls of \<^verbatim>\<open>visit\<close> that were made, the visitor and the memory.
\<close>

definition tryAccept ::
  "cvtype \<Rightarrow> ('s, 'w) visitor \<Rightarrow> addr \<Rightarrow> 'w \<Rightarrow> bool \<times> event list \<times> ('s, 'w) visitor \<times> 'w" where
  "tryAccept S v this w =
     (if dynamic_cast v S then (True, visit v S this w) else (False, [], v, w))"

definition tryAcceptConst ::
  "cvtype \<Rightarrow> ('s, 'w) visitor \<Rightarrow> addr \<Rightarrow> 'w \<Rightarrow> bool \<times> event list \<times> ('s, 'w) visitor \<times> 'w" where
  "tryAcceptConst S v this w =
     (if dynamic_cast v (add_const S) then (True, visit v (add_const S) this w)
      else (False, [], v, w))"

definition virtual_tryAcceptConst ::
  "class_table \<Rightarrow> ('s, ('v, 'os) world) visitor \<Rightarrow> addr \<Rightarrow> ('v, 'os) world \<Rightarrow>
     (bool \<times> event list \<times> ('s, ('v, 'os) world) visitor \<times> ('v, 'os) world) outcome" where
  "virtual_tryAcceptConst ct v client w =
     (case deref w client of
        None \<Rightarrow> DanglingReference
      | Some obj \<Rightarrow> Returns (tryAcceptConst (ct (dyn_type obj)) v client w))"


section \<open>Generic cloning\<close>

text \<open>
  \<^verbatim>\<open>Cloner<Base>\<close> has one member, \<^verbatim>\<open>std::unique_ptr<Base> copy\<close>: an owning pointer,
  null or the address of the object it owns.
\<close>

record cloner =
  copy :: "addr option"

text \<open>
  \<^verbatim>\<open>void operator()( const T & t ) { copy = std::unique_ptr<Base>( new T(t) ); }\<close>.
  \<^verbatim>\<open>T\<close> is deduced from the static type of the argument, without its \<^verbatim>\<open>const\<close>. The new
  object is of class \<^verbatim>\<open>T\<close>; its value is what the copy constructor of \<^verbatim>\<open>T\<close>, which is
  the caller's, builds from the argument seen as a \<^verbatim>\<open>T\<close>. The assignment to \<^verbatim>\<open>copy\<close>
  deletes the object the pointer owned before. A reference designates a live object;
  for an address without one nothing is done.
\<close>

definition Cloner_call ::
  "(cname \<Rightarrow> 'v object \<Rightarrow> 'v) \<Rightarrow> cloner \<Rightarrow> cvtype \<Rightarrow> addr \<Rightarrow> ('v, 'os) world \<Rightarrow>
     cloner \<times> ('v, 'os) world" where
  "Cloner_call copy_ctor c T t w =
     (case deref w t of
        None \<Rightarrow> (c, w)
      | Some src \<Rightarrow>
          let p = length (heap w);
              h = heap w @ [Some \<lparr>dyn_type = typeid T, val = copy_ctor (typeid T) src\<rparr>]
          in (\<lparr>copy = Some p\<rparr>,
              w\<lparr>heap := (case copy c of None \<Rightarrow> h | Some old \<Rightarrow> h[old := None])\<rparr>))"

text \<open>
  \<^verbatim>\<open>clone<V, Base>( const typename V::VisitableInterface & client )\<close>, where \<^verbatim>\<open>V\<close> is
  \<^verbatim>\<open>Visitor<Ts...>\<close>. The visitor is a \<^verbatim>\<open>V::ConstVisitor::Impl<Cloner<Base>&>\<close>: its
  functor is a reference to the local \<^verbatim>\<open>cloner\<close>, so the state of the functor after the
  call is the state of \<^verbatim>\<open>cloner\<close>. The result is the pointer moved out of
  \<^verbatim>\<open>cloner.copy\<close>, the calls of \<^verbatim>\<open>visit\<close> that were made, and the memory.
\<close>

definition clone ::
  "bool \<Rightarrow> class_table \<Rightarrow> (cname \<Rightarrow> 'v object \<Rightarrow> 'v) \<Rightarrow> cvtype list \<Rightarrow> addr \<Rightarrow>
     ('v, 'os) world \<Rightarrow> (addr option \<times> event list \<times> ('v, 'os) world) outcome" where
  "clone ndebug ct copy_ctor Ts client w =
     (case virtual_accept_const ndebug ct
             (Impl (Cloner_call copy_ctor) (map add_const Ts) \<lparr>copy = None\<rparr>) client w of
        Returns (es, v, w') \<Rightarrow> Returns (copy (vstate v), es, w')
      | AssertionFailed \<Rightarrow> AssertionFailed
      | DanglingReference \<Rightarrow> DanglingReference)"

text \<open>
  \<^verbatim>\<open>clone<V, Base>( const AcyclicVisitableInterface & client )\<close>, where \<^verbatim>\<open>V\<close> is
  \<^verbatim>\<open>AcyclicVisitor<Ts...>\<close>. The flag returned by \<^verbatim>\<open>tryAcceptConst\<close> is not used.
\<close>

definition clone_acyclic ::
  "class_table \<Rightarrow> (cname \<Rightarrow> 'v object \<Rightarrow> 'v) \<Rightarrow> cvtype list \<Rightarrow> addr \<Rightarrow>
     ('v, 'os) world \<Rightarrow> (addr option \<times> event list \<times> ('v, 'os) world) outcome" where
  "clone_acyclic ct copy_ctor Ts client w =
     (case virtual_tryAcceptConst ct
             (Impl (Cloner_call copy_ctor) (map add_const Ts) \<lparr>copy = None\<rparr>) client w of
        Returns (ok, es, v, w') \<Rightarrow> Returns (copy (vstate v), es, w')
      | AssertionFailed \<Rightarrow> AssertionFailed
      | DanglingReference \<Rightarrow> DanglingReference)"


section \<open>Generic streaming\<close>

text \<open>
  \<^verbatim>\<open>Streamer<OutputStream>\<close> has one member, a reference to the stream; it has no state
  of its own, and copying or moving it leaves its source as it is.
  \<^verbatim>\<open>void operator()( const T & t ) { os << t; }\<close> applies the caller's insertion operator
  for \<^verbatim>\<open>const T &\<close> to the stream.
\<close>

definition Streamer_ctors :: "unit functor_ctors" where
  "Streamer_ctors =
     \<lparr>copy_from_const = (\<lambda>f. f), copy_from_nonconst = (\<lambda>f. (f, f)), move_from = (\<lambda>f. (f, f))\<rparr>"

definition Streamer_call ::
  "(cname \<Rightarrow> 'v object \<Rightarrow> 'os \<Rightarrow> 'os) \<Rightarrow> unit \<Rightarrow> cvtype \<Rightarrow> addr \<Rightarrow> ('v, 'os) world \<Rightarrow>
     unit \<times> ('v, 'os) world" where
  "Streamer_call put f T t w =
     (case deref w t of
        None \<Rightarrow> (f, w)
      | Some obj \<Rightarrow> (f, w\<lparr>sink := put (typeid T) obj (sink w)\<rparr>))"

text \<open>
  \<^verbatim>\<open>print<V>( os, client )\<close> for a \<^verbatim>\<open>const typename V::VisitableInterface &\<close> and for a
  \<^verbatim>\<open>const AcyclicVisitableInterface &\<close>. The stream \<^verbatim>\<open>os\<close> is the sink of the memory; the
  returned reference designates it.
\<close>

definition print ::
  "bool \<Rightarrow> class_table \<Rightarrow> (cname \<Rightarrow> 'v object \<Rightarrow> 'os \<Rightarrow> 'os) \<Rightarrow> cvtype list \<Rightarrow> addr \<Rightarrow>
     ('v, 'os) world \<Rightarrow> (event list \<times> ('v, 'os) world) outcome" where
  "print ndebug ct put Ts client w =
     (case virtual_accept_const ndebug ct
             (makeImpl Streamer_ctors (Streamer_call put) (map add_const Ts) ()) client w of
        Returns (es, v, w') \<Rightarrow> Returns (es, w')
      | AssertionFailed \<Rightarrow> AssertionFailed
      | DanglingReference \<Rightarrow> DanglingReference)"

definition print_acyclic ::
  "class_table \<Rightarrow> (cname \<Rightarrow> 'v object \<Rightarrow> 'os \<Rightarrow> 'os) \<Rightarrow> cvtype list \<Rightarrow> addr \<Rightarrow>
     ('v, 'os) world \<Rightarrow> (event list \<times> ('v, 'os) world) outcome" where
  "print_acyclic ct put Ts client w =
     (case virtual_tryAcceptConst ct
             (makeImpl Streamer_ctors (Streamer_call put) (map add_const Ts) ()) client w of
        Returns (ok, es, v, w') \<Rightarrow> Returns (es, w')
      | AssertionFailed \<Rightarrow> AssertionFailed
      | DanglingReference \<Rightarrow> DanglingReference)"

text \<open>
  What a caller of \<^verbatim>\<open>print\<close> sees of a run: how it ended and, if it returned, the
  stream.
\<close>

definition stream_after :: "(event list \<times> ('v, 'os) world) outcome \<Rightarrow> 'os outcome" where
  "stream_after r = map_outcome (\<lambda>(es, w). sink w) r"


section \<open>A program that uses the library\<close>

text \<open>
  The classes \<^verbatim>\<open>Circle\<close> and \<^verbatim>\<open>Square\<close> attach the visitable capability to themselves;
  \<^verbatim>\<open>UnitCircle\<close> is derived from \<^verbatim>\<open>Circle\<close> and attaches nothing. The value of a shape is
  one number. The copy constructors are the implicit ones, and the insertion operator
  writes the name of the class it is called for. \<open>tally\<close> is a functor that counts its
  calls, \<open>greedy\<close> are the constructors of a functor type whose copy from a const source
  copies and whose other two constructors empty their source.
\<close>

definition shapes :: class_table where
  "shapes c = (if c = ''UnitCircle'' then Plain ''Circle'' else Plain c)"

definition memberwise :: "cname \<Rightarrow> nat object \<Rightarrow> nat" where
  "memberwise T src = val src"

definition write_name :: "cname \<Rightarrow> nat object \<Rightarrow> string \<Rightarrow> string" where
  "write_name T obj os = os @ T"

definition tally :: "nat \<Rightarrow> cvtype \<Rightarrow> addr \<Rightarrow> (nat, string) world \<Rightarrow> nat \<times> (nat, string) world" where
  "tally n T t w = (Suc n, w)"

definition greedy :: "nat functor_ctors" where
  "greedy =
     \<lparr>copy_from_const = (\<lambda>f. f), copy_from_nonconst = (\<lambda>f. (f, 0)), move_from = (\<lambda>f. (f, 0))\<rparr>"

definition studio :: "(nat, string) world" where
  "studio = \<lparr>heap = [Some \<lparr>dyn_type = ''Circle'', val = 2\<rparr>,
                     Some \<lparr>dyn_type = ''UnitCircle'', val = 1\<rparr>,
                     Some \<lparr>dyn_type = ''Square'', val = 3\<rparr>],
             sink = ''out: ''\<rparr>"

text \<open>
  A second memory with the same stream: a circle equal to the first object of \<open>studio\<close>
  lives at another address, next to a deleted object.
\<close>

definition gallery :: "(nat, string) world" where
  "gallery = \<lparr>heap = [None, Some \<lparr>dyn_type = ''Circle'', val = 2\<rparr>], sink = ''out: ''\<rparr>"


section \<open>Properties\<close>

subsection \<open>Const qualification\<close>

lemma typeid_add_const: "typeid (add_const T) = typeid T"
  by (cases T) simp_all

lemma add_const_eq_iff: "add_const A = add_const B \<longleftrightarrow> typeid A = typeid B"
  by (cases A; cases B) simp_all

text \<open>
  \<^verbatim>\<open>V::ConstVisitor\<close> has the entry point for \<^verbatim>\<open>const S\<close> exactly when \<^verbatim>\<open>S\<close>, with or
  without \<^verbatim>\<open>const\<close>, is one of the types of \<^verbatim>\<open>V\<close>.
\<close>

lemma add_const_in_ConstVisitor:
  "add_const S \<in> set (map add_const Ts) \<longleftrightarrow> typeid S \<in> typeid ` set Ts"
  by (auto simp: add_const_eq_iff image_iff)


subsection \<open>Dispatch in a closed hierarchy\<close>

text \<open>
  C1. Let \<open>this\<close> be an object whose dynamic type is \<^verbatim>\<open>S\<close>, and let the visitor have the
  entry point for \<^verbatim>\<open>S\<close> (for \<^verbatim>\<open>const S\<close> in the const case). Then \<^verbatim>\<open>accept\<close> returns,
  in a build with and without \<^verbatim>\<open>NDEBUG\<close>; it makes one call of \<^verbatim>\<open>visit\<close>, the one for
  \<^verbatim>\<open>S\<close>, with the address of the object itself; and the visitor and the memory are left
  as that one call leaves them.
\<close>

theorem accept_invokes_entry_once:
  assumes "deref w this = Some obj" and "dyn_type obj = typeid S"
    and "S \<in> set (bases v)" and "add_const S \<in> set (bases cv)"
  shows "accept ndebug S v this w =
           (case vtable v S this (vstate v) w of
              (s', w') \<Rightarrow> Returns ([(S, this)], v\<lparr>vstate := s'\<rparr>, w')) \<and>
         accept_const ndebug S cv this w =
           (case vtable cv (add_const S) this (vstate cv) w of
              (s', w') \<Rightarrow> Returns ([(add_const S, this)], cv\<lparr>vstate := s'\<rparr>, w'))"
  using assms(1,2)
  by (simp add: accept_def accept_const_def assert_typeid_def visit_def typeid_add_const
      split: prod.split)

theorem accept_invokes_entry_once_witness:
  "accept False (Plain ''Circle'') (Impl tally [Plain ''Circle'', Plain ''Square''] 0) 0 studio =
     Returns ([(Plain ''Circle'', 0)], Impl tally [Plain ''Circle'', Plain ''Square''] 1, studio) \<and>
   accept_const False (Plain ''Circle'') (Impl tally [Const ''Circle'', Const ''Square''] 0) 0 studio =
     Returns ([(Const ''Circle'', 0)], Impl tally [Const ''Circle'', Const ''Square''] 1, studio)"
  using accept_invokes_entry_once [where w = studio and this = 0
      and obj = "\<lparr>dyn_type = ''Circle'', val = 2\<rparr>" and S = "Plain ''Circle''"
      and v = "Impl tally [Plain ''Circle'', Plain ''Square''] 0"
      and cv = "Impl tally [Const ''Circle'', Const ''Square''] 0" and ndebug = False]
  by (simp add: deref_def studio_def Impl_def Impl_visit_def tally_def)

text \<open>
  C2. For an object whose dynamic type is \<^verbatim>\<open>S\<close> the assertion at the start of both
  \<^verbatim>\<open>accept\<close> functions holds. More precisely, \<^verbatim>\<open>accept\<close> stops at the assertion exactly
  when the dynamic type is not \<^verbatim>\<open>S\<close> and the build has assertions enabled: nothing else
  detects the mismatch.
\<close>

theorem assertion_holds_for_own_type:
  assumes "deref w this = Some obj"
  shows "(dyn_type obj = typeid S \<longrightarrow>
            accept ndebug S v this w \<noteq> AssertionFailed \<and>
            accept_const ndebug S cv this w \<noteq> AssertionFailed) \<and>
         (accept ndebug S v this w = AssertionFailed) = (\<not> ndebug \<and> dyn_type obj \<noteq> typeid S) \<and>
         (accept_const ndebug S cv this w = AssertionFailed) =
           (\<not> ndebug \<and> dyn_type obj \<noteq> typeid S)"
  using assms
  by (simp add: accept_def accept_const_def assert_typeid_def typeid_add_const)

theorem assertion_holds_for_own_type_witness:
  "accept False (Plain ''Circle'') (Impl tally [Plain ''Circle'', Plain ''Square''] 0) 0 studio
     \<noteq> AssertionFailed \<and>
   accept_const False (Plain ''Circle'') (Impl tally [Const ''Circle'', Const ''Square''] 0) 0 studio
     \<noteq> AssertionFailed"
  using assertion_holds_for_own_type [where w = studio and this = 0
      and obj = "\<lparr>dyn_type = ''Circle'', val = 2\<rparr>" and S = "Plain ''Circle''"
      and v = "Impl tally [Plain ''Circle'', Plain ''Square''] 0"
      and cv = "Impl tally [Const ''Circle'', Const ''Square''] 0" and ndebug = False]
  by (simp add: deref_def studio_def)


subsection \<open>Dispatch in an open hierarchy\<close>

text \<open>
  C3. If the visitor has the base \<^verbatim>\<open>AcyclicVisitor<S>\<close>, \<^verbatim>\<open>tryAccept\<close> returns true after
  one call of \<^verbatim>\<open>visit\<close>, the one for \<^verbatim>\<open>S\<close>, with the address of the probed object; the
  same holds of \<^verbatim>\<open>tryAcceptConst\<close> and the base \<^verbatim>\<open>AcyclicVisitor<const S>\<close>.
\<close>

theorem tryAccept_dispatches_once:
  assumes "S \<in> set (bases v)" and "add_const S \<in> set (bases cv)"
  shows "tryAccept S v this w =
           (case vtable v S this (vstate v) w of
              (s', w') \<Rightarrow> (True, [(S, this)], v\<lparr>vstate := s'\<rparr>, w')) \<and>
         tryAcceptConst S cv this w =
           (case vtable cv (add_const S) this (vstate cv) w of
              (s', w') \<Rightarrow> (True, [(add_const S, this)], cv\<lparr>vstate := s'\<rparr>, w'))"
  using assms
  by (simp add: tryAccept_def tryAcceptConst_def dynamic_cast_def visit_def split: prod.split)

theorem tryAccept_dispatches_once_witness:
  "tryAccept (Plain ''Square'') (Impl tally [Plain ''Circle'', Plain ''Square''] 0) 2 studio =
     (True, [(Plain ''Square'', 2)], Impl tally [Plain ''Circle'', Plain ''Square''] 1, studio) \<and>
   tryAcceptConst (Plain ''Square'') (Impl tally [Const ''Circle'', Const ''Square''] 0) 2 studio =
     (True, [(Const ''Square'', 2)], Impl tally [Const ''Circle'', Const ''Square''] 1, studio)"
  using tryAccept_dispatches_once [where S = "Plain ''Square''" and this = 2 and w = studio
      and v = "Impl tally [Plain ''Circle'', Plain ''Square''] 0"
      and cv = "Impl tally [Const ''Circle'', Const ''Square''] 0"]
  by (simp add: Impl_def Impl_visit_def tally_def)

text \<open>
  C4. If the visitor has no base \<^verbatim>\<open>AcyclicVisitor<S>\<close>, \<^verbatim>\<open>tryAccept\<close> returns false, makes
  no call, and leaves the visitor and the whole memory, so every object and the set of
  allocated addresses, as they were; the same holds of \<^verbatim>\<open>tryAcceptConst\<close> and
  \<^verbatim>\<open>AcyclicVisitor<const S>\<close>. Both functions have no other way to end than to return.
\<close>

theorem tryAccept_unhandled_is_silent:
  assumes "S \<notin> set (bases v)" and "add_const S \<notin> set (bases cv)"
  shows "tryAccept S v this w = (False, [], v, w) \<and>
         tryAcceptConst S cv this w = (False, [], cv, w)"
  using assms by (simp add: tryAccept_def tryAcceptConst_def dynamic_cast_def)

theorem tryAccept_unhandled_is_silent_witness:
  "tryAccept (Plain ''Square'') (Impl tally [Plain ''Circle'', Plain ''Triangle''] 0) 2 studio =
     (False, [], Impl tally [Plain ''Circle'', Plain ''Triangle''] 0, studio) \<and>
   tryAcceptConst (Plain ''Square'') (Impl tally [Const ''Circle'', Const ''Triangle''] 0) 2 studio =
     (False, [], Impl tally [Const ''Circle'', Const ''Triangle''] 0, studio)"
  using tryAccept_unhandled_is_silent [where S = "Plain ''Square''" and this = 2 and w = studio
      and v = "Impl tally [Plain ''Circle'', Plain ''Triangle''] 0"
      and cv = "Impl tally [Const ''Circle'', Const ''Triangle''] 0"]
  by (simp add: Impl_def)

text \<open>
  C10. \<^verbatim>\<open>tryAccept\<close> returns true exactly for the visitors with the base
  \<^verbatim>\<open>AcyclicVisitor<S>\<close>, and \<^verbatim>\<open>tryAcceptConst\<close> exactly for those with the base
  \<^verbatim>\<open>AcyclicVisitor<const S>\<close>. So \<^verbatim>\<open>tryAccept\<close> returns false for a visitor that has only
  the const entry point, and \<^verbatim>\<open>tryAcceptConst\<close> returns false for a visitor that has
  only the mutable one.
\<close>

theorem probes_are_independent:
  "(fst (tryAccept S v this w) \<longleftrightarrow> S \<in> set (bases v)) \<and>
   (fst (tryAcceptConst S v this w) \<longleftrightarrow> add_const S \<in> set (bases v)) \<and>
   (add_const S \<in> set (bases cv) \<and> S \<notin> set (bases cv) \<longrightarrow> \<not> fst (tryAccept S cv this w)) \<and>
   (S \<in> set (bases mv) \<and> add_const S \<notin> set (bases mv) \<longrightarrow> \<not> fst (tryAcceptConst S mv this w))"
  by (simp add: tryAccept_def tryAcceptConst_def dynamic_cast_def)

theorem probes_are_independent_witness:
  "\<not> fst (tryAccept (Plain ''Circle'') (Impl tally [Const ''Circle'', Const ''Square''] 0) 0 studio) \<and>
   \<not> fst (tryAcceptConst (Plain ''Circle'') (Impl tally [Plain ''Circle'', Plain ''Square''] 0) 0 studio)"
  using probes_are_independent [where S = "Plain ''Circle''" and this = 0 and w = studio
      and v = "Impl tally [Plain ''Circle'', Plain ''Square''] 0"
      and cv = "Impl tally [Const ''Circle'', Const ''Square''] 0"
      and mv = "Impl tally [Plain ''Circle'', Plain ''Square''] 0"]
  by (simp add: Impl_def)


subsection \<open>Copying an implementation object\<close>

text \<open>
  C7. Constructing an \<^verbatim>\<open>Impl\<close> from a non-const lvalue, a const lvalue or a const rvalue
  leaves the source as it was, and the functor of the new object is the copy made by
  the functor's copy constructor from a const source. Constructing from a non-const
  rvalue moves the functor.
\<close>

theorem Impl_copy_leaves_source:
  "(cat \<noteq> NonConstRvalue \<longrightarrow>
      Impl_from F cat other = (other\<lparr>vstate := copy_from_const F (vstate other)\<rparr>, other)) \<and>
   Impl_from F NonConstRvalue other =
     (case move_from F (vstate other) of
        (f', left) \<Rightarrow> (other\<lparr>vstate := f'\<rparr>, other\<lparr>vstate := left\<rparr>))"
  by (cases cat) (simp_all add: Impl_from_def default_copy_def default_move_def)

theorem Impl_copy_leaves_source_witness:
  "Impl_from greedy NonConstLvalue (Impl tally [Plain ''Circle'', Plain ''Square''] 5) =
     (Impl tally [Plain ''Circle'', Plain ''Square''] 5,
      Impl tally [Plain ''Circle'', Plain ''Square''] 5) \<and>
   Impl_from greedy NonConstRvalue (Impl tally [Plain ''Circle'', Plain ''Square''] 5) =
     (Impl tally [Plain ''Circle'', Plain ''Square''] 5,
      Impl tally [Plain ''Circle'', Plain ''Square''] 0)"
  using Impl_copy_leaves_source [where cat = NonConstLvalue and F = greedy
      and other = "Impl tally [Plain ''Circle'', Plain ''Square''] 5"]
  by (simp add: greedy_def Impl_def)


subsection \<open>Cloning\<close>

text \<open>
  An instance of a class that inherits the capability of its base: the object at address
  1 of \<open>studio\<close> is a \<^verbatim>\<open>UnitCircle\<close>, visitable as a \<^verbatim>\<open>Circle\<close>. The dispatch of the
  acyclic \<^verbatim>\<open>clone\<close> succeeds, and the clone is a \<^verbatim>\<open>Circle\<close>: its dynamic type is not
  that of the source.
\<close>

theorem clone_slices_derived_counterexample:
  "clone_acyclic shapes memberwise [Plain ''Circle'', Plain ''Square''] 1 studio =
     Returns (Some 3, [(Const ''Circle'', 1)],
       \<lparr>heap = [Some \<lparr>dyn_type = ''Circle'', val = 2\<rparr>,
                Some \<lparr>dyn_type = ''UnitCircle'', val = 1\<rparr>,
                Some \<lparr>dyn_type = ''Square'', val = 3\<rparr>,
                Some \<lparr>dyn_type = ''Circle'', val = 1\<rparr>],
        sink = ''out: ''\<rparr>) \<and>
   deref studio 1 = Some \<lparr>dyn_type = ''UnitCircle'', val = 1\<rparr> \<and>
   shapes ''UnitCircle'' = Plain ''Circle'' \<and>
   ''Circle'' \<noteq> ''UnitCircle''"
  by (simp add: clone_acyclic_def virtual_tryAcceptConst_def tryAcceptConst_def dynamic_cast_def
      Impl_def Impl_visit_def visit_def Cloner_call_def deref_def studio_def shapes_def
      memberwise_def)

text \<open>
  C5, for an instance whose class attached the capability to itself. Let the dynamic
  type of the client be the \<^verbatim>\<open>S\<close> under which it is visitable, let \<^verbatim>\<open>S\<close> be one of the
  types of \<^verbatim>\<open>V\<close>, and let the copy constructor of \<^verbatim>\<open>S\<close> keep the value. Then both
  \<^verbatim>\<open>clone\<close> functions return after one call of \<^verbatim>\<open>visit\<close>, and the pointer they return
  is the address of a new object: no object lived at that address before, so nothing
  else refers to it; it is not the address of the client; the object there has the
  dynamic type and the value of the client; the client is as it was, and stays so
  whatever is written to the clone.
\<close>

theorem clone_round_trip:
  assumes "deref w client = Some obj"
    and "typeid (ct (dyn_type obj)) = dyn_type obj"
    and "dyn_type obj \<in> typeid ` set Ts"
    and "copy_ctor (dyn_type obj) obj = val obj"
  shows "clone ndebug ct copy_ctor Ts client w =
           Returns (Some (length (heap w)), [(add_const (ct (dyn_type obj)), client)],
                    w\<lparr>heap := heap w @ [Some obj]\<rparr>) \<and>
         clone_acyclic ct copy_ctor Ts client w =
           Returns (Some (length (heap w)), [(add_const (ct (dyn_type obj)), client)],
                    w\<lparr>heap := heap w @ [Some obj]\<rparr>) \<and>
         deref w (length (heap w)) = None \<and>
         client \<noteq> length (heap w) \<and>
         deref (w\<lparr>heap := heap w @ [Some obj]\<rparr>) (length (heap w)) = Some obj \<and>
         deref (w\<lparr>heap := heap w @ [Some obj]\<rparr>) client = Some obj \<and>
         deref (w\<lparr>heap := (heap w @ [Some obj])[length (heap w) := changed]\<rparr>) client = Some obj"
proof -
  from assms(1) have lt: "client < length (heap w)" and at: "heap w ! client = Some obj"
    by (simp_all add: deref_def split: if_splits)
  have new: "\<lparr>dyn_type = dyn_type obj, val = val obj\<rparr> = obj"
    by simp
  have closed: "clone ndebug ct copy_ctor Ts client w =
      Returns (Some (length (heap w)), [(add_const (ct (dyn_type obj)), client)],
               w\<lparr>heap := heap w @ [Some obj]\<rparr>)"
    using assms
    by (simp add: clone_def virtual_accept_const_def accept_const_def assert_typeid_def
        Impl_def Impl_visit_def visit_def Cloner_call_def typeid_add_const new)
  have handled: "add_const (ct (dyn_type obj)) \<in> add_const ` set Ts"
    using assms(2,3) add_const_in_ConstVisitor [of "ct (dyn_type obj)" Ts] by simp
  have acyclic: "clone_acyclic ct copy_ctor Ts client w =
      Returns (Some (length (heap w)), [(add_const (ct (dyn_type obj)), client)],
               w\<lparr>heap := heap w @ [Some obj]\<rparr>)"
    using assms handled
    by (simp add: clone_acyclic_def virtual_tryAcceptConst_def tryAcceptConst_def
        dynamic_cast_def
        Impl_def Impl_visit_def visit_def Cloner_call_def typeid_add_const new)
  have rest: "deref w (length (heap w)) = None" "client \<noteq> length (heap w)"
    "deref (w\<lparr>heap := heap w @ [Some obj]\<rparr>) (length (heap w)) = Some obj"
    "deref (w\<lparr>heap := heap w @ [Some obj]\<rparr>) client = Some obj"
    "deref (w\<lparr>heap := (heap w @ [Some obj])[length (heap w) := changed]\<rparr>) client = Some obj"
    using lt at by (simp_all add: deref_def nth_append)
  from closed acyclic rest show ?thesis by simp
qed

theorem clone_round_trip_witness:
  "clone False shapes memberwise [Plain ''Circle'', Plain ''Square''] 0 studio =
     Returns (Some 3, [(Const ''Circle'', 0)],
              studio\<lparr>heap := heap studio @ [Some \<lparr>dyn_type = ''Circle'', val = 2\<rparr>]\<rparr>) \<and>
   clone_acyclic shapes memberwise [Plain ''Circle'', Plain ''Square''] 0 studio =
     Returns (Some 3, [(Const ''Circle'', 0)],
              studio\<lparr>heap := heap studio @ [Some \<lparr>dyn_type = ''Circle'', val = 2\<rparr>]\<rparr>)"
  using clone_round_trip [where w = studio and client = 0
      and obj = "\<lparr>dyn_type = ''Circle'', val = 2\<rparr>" and ct = shapes
      and Ts = "[Plain ''Circle'', Plain ''Square'']" and copy_ctor = memberwise
      and ndebug = False and changed = None]
  by (simp add: deref_def studio_def shapes_def memberwise_def)

text \<open>
  The \<^verbatim>\<open>UnitCircle\<close> at address 1 of \<open>studio\<close> again, cloned with
  \<^verbatim>\<open>V = AcyclicVisitor<Circle, Triangle>\<close>. Its concrete type is not one of the types of
  \<^verbatim>\<open>V\<close>, but its class inherits \<^verbatim>\<open>AcyclicVisitable<Circle>\<close>: the probe is made for
  \<^verbatim>\<open>AcyclicVisitor<const Circle>\<close> and succeeds, and the result is not a null pointer but
  a new \<^verbatim>\<open>Circle\<close>.
\<close>

theorem clone_acyclic_derived_not_empty_counterexample:
  "deref studio 1 = Some \<lparr>dyn_type = ''UnitCircle'', val = 1\<rparr> \<and>
   ''UnitCircle'' \<notin> typeid ` set [Plain ''Circle'', Plain ''Triangle''] \<and>
   shapes ''UnitCircle'' = Plain ''Circle'' \<and>
   clone_acyclic shapes memberwise [Plain ''Circle'', Plain ''Triangle''] 1 studio =
     Returns (Some 3, [(Const ''Circle'', 1)],
       \<lparr>heap = [Some \<lparr>dyn_type = ''Circle'', val = 2\<rparr>,
                Some \<lparr>dyn_type = ''UnitCircle'', val = 1\<rparr>,
                Some \<lparr>dyn_type = ''Square'', val = 3\<rparr>,
                Some \<lparr>dyn_type = ''Circle'', val = 1\<rparr>],
        sink = ''out: ''\<rparr>) \<and>
   clone_acyclic shapes memberwise [Plain ''Circle'', Plain ''Triangle''] 1 studio \<noteq>
     Returns (None, [], studio)"
  by (simp add: clone_acyclic_def virtual_tryAcceptConst_def tryAcceptConst_def dynamic_cast_def
      Impl_def Impl_visit_def visit_def Cloner_call_def deref_def studio_def shapes_def
      memberwise_def)

text \<open>
  C6, with the type that the probe is made for. Let \<^verbatim>\<open>S\<close> be the type under which the
  client is visitable, the argument of the \<^verbatim>\<open>AcyclicVisitable<S>\<close> its class inherits;
  it is the concrete type of the client when the class attached the capability to
  itself. If \<^verbatim>\<open>S\<close> is not one of the types of \<^verbatim>\<open>V\<close>, the acyclic \<^verbatim>\<open>clone\<close> returns a
  null pointer; it makes no call and leaves the memory as it was.
\<close>

theorem clone_acyclic_unhandled_is_empty:
  assumes "deref w client = Some obj"
    and "typeid (ct (dyn_type obj)) \<notin> typeid ` set Ts"
  shows "clone_acyclic ct copy_ctor Ts client w = Returns (None, [], w)"
  using assms
  by (simp add: clone_acyclic_def virtual_tryAcceptConst_def tryAcceptConst_def dynamic_cast_def
      Impl_def add_const_in_ConstVisitor [symmetric])

theorem clone_acyclic_unhandled_is_empty_witness:
  "clone_acyclic shapes memberwise [Plain ''Circle'', Plain ''Triangle''] 2 studio =
     Returns (None, [], studio)"
  using clone_acyclic_unhandled_is_empty [where w = studio and client = 2
      and obj = "\<lparr>dyn_type = ''Square'', val = 3\<rparr>" and ct = shapes
      and Ts = "[Plain ''Circle'', Plain ''Triangle'']" and copy_ctor = memberwise]
  by (simp add: deref_def studio_def shapes_def)


subsection \<open>Printing\<close>

text \<open>
  C8. The acyclic \<^verbatim>\<open>print\<close> returns, and it changes nothing but the stream: when the
  dispatch succeeds the stream is the one the insertion operator leaves, and when it
  fails, the type under which the client is visitable not being one of the types of
  \<^verbatim>\<open>V\<close>, the stream and the rest of the memory are as they were.
\<close>

theorem print_acyclic_writes_only_the_sink:
  assumes "deref w client = Some obj"
  shows "print_acyclic ct put Ts client w =
           (if typeid (ct (dyn_type obj)) \<in> typeid ` set Ts
            then Returns ([(add_const (ct (dyn_type obj)), client)],
                          w\<lparr>sink := put (typeid (ct (dyn_type obj))) obj (sink w)\<rparr>)
            else Returns ([], w))"
  using assms
  by (simp add: print_acyclic_def virtual_tryAcceptConst_def tryAcceptConst_def dynamic_cast_def
      makeImpl_def Impl_def Impl_visit_def visit_def Streamer_call_def typeid_add_const
      add_const_in_ConstVisitor [symmetric])

theorem print_acyclic_writes_only_the_sink_witness:
  "print_acyclic shapes write_name [Plain ''Circle'', Plain ''Triangle''] 2 studio =
     Returns ([], studio)"
  using print_acyclic_writes_only_the_sink [where w = studio and client = 2
      and obj = "\<lparr>dyn_type = ''Square'', val = 3\<rparr>" and ct = shapes
      and Ts = "[Plain ''Circle'', Plain ''Triangle'']" and put = write_name]
  by (simp add: deref_def studio_def shapes_def)

text \<open>
  C9. Two runs of \<^verbatim>\<open>print\<close> on equal instances, started with equal streams, end in the
  same way and leave equal streams, whatever else the two memories hold and wherever
  the instance lives. This is so for both \<^verbatim>\<open>print\<close> functions.
\<close>

theorem print_deterministic:
  assumes "deref w1 c1 = Some obj" and "deref w2 c2 = Some obj" and "sink w1 = sink w2"
  shows "stream_after (print ndebug ct put Ts c1 w1) = stream_after (print ndebug ct put Ts c2 w2) \<and>
         stream_after (print_acyclic ct put Ts c1 w1) = stream_after (print_acyclic ct put Ts c2 w2)"
  using assms
  by (simp add: stream_after_def print_def print_acyclic_def virtual_accept_const_def
      accept_const_def assert_typeid_def virtual_tryAcceptConst_def tryAcceptConst_def
      dynamic_cast_def makeImpl_def Impl_def Impl_visit_def visit_def Streamer_call_def)

theorem print_deterministic_witness:
  "stream_after (print False shapes write_name [Plain ''Circle'', Plain ''Square''] 0 studio) =
     stream_after (print False shapes write_name [Plain ''Circle'', Plain ''Square''] 1 gallery) \<and>
   stream_after (print_acyclic shapes write_name [Plain ''Circle'', Plain ''Square''] 0 studio) =
     stream_after (print_acyclic shapes write_name [Plain ''Circle'', Plain ''Square''] 1 gallery)"
  using print_deterministic [where ?w1.0 = studio and ?c1.0 = 0 and ?w2.0 = gallery and ?c2.0 = 1
      and obj = "\<lparr>dyn_type = ''Circle'', val = 2\<rparr>" and ndebug = False and ct = shapes
      and put = write_name and Ts = "[Plain ''Circle'', Plain ''Square'']"]
  by (simp add: deref_def studio_def gallery_def)

end
